theory Spec2Isabelle
  imports Main "HOL-Library.Word" "HOL-Library.Sublist"
begin

unbundle bit_operations_syntax

section \<open>The epoll TCP relay of tcp\_epoll\_server.cpp\<close>

text \<open>
  The program is one class, \<^verbatim>\<open>TCP_Server\<close>, whose methods talk to the kernel
  through system calls. The embedding keeps the methods as functions on a record of the
  object's members. Every system call is written to a log together with the value the
  kernel returned for it; these return values are inputs of the model (the environment
  records below), so every branch the source takes on a return value is a branch here.
  Diagnostic output to \<^verbatim>\<open>std::cerr\<close> and \<^verbatim>\<open>std::cout\<close> is left out.
\<close>

subsection \<open>Constants of the Linux headers\<close>

text \<open>
  The flag values come from the system headers (\<^verbatim>\<open>sys/epoll.h\<close>,
  \<^verbatim>\<open>fcntl.h\<close>, \<^verbatim>\<open>errno.h\<close>), which are not part of the repository; they are
  the values of Linux on every architecture
  (\<^verbatim>\<open>O_NONBLOCK\<close>: the generic value 04000).
\<close>

type_synonym byte = "8 word"

definition EPOLLIN :: "32 word" where "EPOLLIN = 0x001"
definition EPOLLERR :: "32 word" where "EPOLLERR = 0x008"
definition EPOLLHUP :: "32 word" where "EPOLLHUP = 0x010"
definition EPOLLRDHUP :: "32 word" where "EPOLLRDHUP = 0x2000"
definition O_NONBLOCK :: int where "O_NONBLOCK = 2048"
definition EAGAIN :: int where "EAGAIN = 11"
definition EWOULDBLOCK :: int where "EWOULDBLOCK = 11"
definition SOMAXCONN :: int where "SOMAXCONN = 4096"

text \<open>The bytes of the C string literal \<^verbatim>\<open>"quit"\<close> that \<^verbatim>\<open>memcmp\<close> compares.\<close>

definition quit_bytes :: "byte list" where
  "quit_bytes = [0x71, 0x75, 0x69, 0x74]"

text \<open>C's reading of \<^verbatim>\<open>events & FLAG\<close> as a condition: true when the result is not zero.\<close>

definition flag_set :: "32 word \<Rightarrow> 32 word \<Rightarrow> bool" where
  "flag_set m flag = (m AND flag \<noteq> 0)"

subsection \<open>System calls and the object's state\<close>

text \<open>
  One constructor per system call the program makes; the last \<open>int\<close> of a call that
  returns a value is that value.
\<close>

datatype syscall =
    Sys_socket int
  | Sys_setsockopt int int
  | Sys_gethostbyname string bool
  | Sys_bind int "16 word" int
  | Sys_listen int int int
  | Sys_epoll_create1 int
  | Sys_epoll_ctl_add int int "32 word" int
  | Sys_epoll_wait int int
  | Sys_accept int int
  | Sys_getnameinfo int
  | Sys_fcntl_getfl int int
  | Sys_fcntl_setfl int int int
  | Sys_read int int
  | Sys_write int "byte list"
  | Sys_close int

text \<open>\<^verbatim>\<open>std::thread epoll_worker\<close>: default-constructed, running a worker, or joined.\<close>

datatype thread_state = Not_started | Started | Joined

text \<open>
  The members of \<^verbatim>\<open>TCP_Server\<close> (the scratch members \<^verbatim>\<open>event\<close> and
  \<^verbatim>\<open>events\<close> are arguments of the calls that fill them), followed by what the
  process owns in the kernel: the log of system calls made so far, the descriptors that
  are open, those in non-blocking mode and those armed in an epoll instance.
\<close>

record TCP_Server =
  socketfd :: int
  worker_state :: bool
  isRunning :: bool
  epoll_worker :: thread_state
  client_fd_list :: "int list"
  trace :: "syscall list"
  open_fds :: "int set"
  nonblocking :: "int set"
  armed :: "int set"

text \<open>
  What a system call changes in the kernel: a successful \<^verbatim>\<open>socket\<close>,
  \<^verbatim>\<open>accept\<close> or \<^verbatim>\<open>epoll_create1\<close> opens the descriptor it returns, a
  successful \<^verbatim>\<open>F_SETFL\<close> with \<^verbatim>\<open>O_NONBLOCK\<close> makes the descriptor
  non-blocking, a successful \<^verbatim>\<open>EPOLL_CTL_ADD\<close> arms it, and \<^verbatim>\<open>close\<close>
  releases the descriptor and with it its epoll registration.
\<close>

fun kernel :: "syscall \<Rightarrow> TCP_Server \<Rightarrow> TCP_Server" where
  "kernel (Sys_socket r) s = (if 0 \<le> r then s\<lparr>open_fds := insert r (open_fds s)\<rparr> else s)"
| "kernel (Sys_accept sock r) s = (if 0 \<le> r then s\<lparr>open_fds := insert r (open_fds s)\<rparr> else s)"
| "kernel (Sys_epoll_create1 r) s = (if 0 \<le> r then s\<lparr>open_fds := insert r (open_fds s)\<rparr> else s)"
| "kernel (Sys_fcntl_setfl fd flags r) s =
     (if r = -1 then s else s\<lparr>nonblocking := insert fd (nonblocking s)\<rparr>)"
| "kernel (Sys_epoll_ctl_add ep fd ev r) s =
     (if r = -1 then s else s\<lparr>armed := insert fd (armed s)\<rparr>)"
| "kernel (Sys_close fd) s =
     s\<lparr>open_fds := open_fds s - {fd}, nonblocking := nonblocking s - {fd}, armed := armed s - {fd}\<rparr>"
| "kernel c s = s"

definition sys :: "syscall \<Rightarrow> TCP_Server \<Rightarrow> TCP_Server" where
  "sys c s = kernel c (s\<lparr>trace := trace s @ [c]\<rparr>)"

text \<open>The system calls made between two states of one run.\<close>

definition emitted :: "TCP_Server \<Rightarrow> TCP_Server \<Rightarrow> syscall list" where
  "emitted s s' = drop (length (trace s)) (trace s')"

subsection \<open>Accepting a connection\<close>

text \<open>The kernel's answers to the calls of one \<^verbatim>\<open>accept_connection\<close>.\<close>

record accept_env =
  accept_ret :: int
  accept_errno :: int
  getnameinfo_ret :: int
  getfl_ret :: int
  setfl_ret :: int
  ctl_ret :: int

definition make_socket_nonblocking :: "accept_env \<Rightarrow> int \<Rightarrow> TCP_Server \<Rightarrow> bool \<times> TCP_Server" where
  "make_socket_nonblocking env fd s =
     (let flags = getfl_ret env;
          s1 = sys (Sys_fcntl_getfl fd flags) s
      in if flags = -1 then (False, s1)
         else let flags' = flags OR O_NONBLOCK;
                  r = setfl_ret env;
                  s2 = sys (Sys_fcntl_setfl fd flags' r) s1
              in if r = -1 then (False, s2) else (True, s2))"

text \<open>
  Both branches of the \<^verbatim>\<open>errno\<close> test after a failed \<^verbatim>\<open>accept\<close> return
  \<open>-1\<close>; they differ in the message printed only.
\<close>

definition accept_connection :: "accept_env \<Rightarrow> int \<Rightarrow> int \<Rightarrow> TCP_Server \<Rightarrow> int \<times> TCP_Server" where
  "accept_connection env sock epollfd s =
     (let infd = accept_ret env;
          s1 = sys (Sys_accept sock infd) s
      in if infd = -1
         then (if accept_errno env = EAGAIN \<or> accept_errno env = EWOULDBLOCK then (-1, s1) else (-1, s1))
         else let s2 = sys (Sys_getnameinfo (getnameinfo_ret env)) s1;
                  (ok, s3) = make_socket_nonblocking env infd s2
              in if \<not> ok then (-1, s3)
                 else let r = ctl_ret env;
                          s4 = sys (Sys_epoll_ctl_add epollfd infd (EPOLLIN OR EPOLLRDHUP OR EPOLLERR OR EPOLLHUP) r) s3
                      in if r = -1 then (-1, s4) else (infd, s4))"

subsection \<open>One readiness event\<close>

text \<open>
  A readiness entry as \<^verbatim>\<open>epoll_wait\<close> delivers it (\<open>ev_events\<close>, \<open>ev_fd\<close>),
  with the kernel's answers to the calls made while it is handled: those of
  \<^verbatim>\<open>accept_connection\<close> if it is handled as a new connection, and the result of
  \<^verbatim>\<open>read\<close> (the return value and the buffer \<^verbatim>\<open>bufin\<close> after the call) if
  it is handled as client data.
\<close>

record ev_in =
  ev_events :: "32 word"
  ev_fd :: int
  ev_accept :: accept_env
  ev_read_size :: int
  ev_read_buf :: "byte list"

text \<open>\<^verbatim>\<open>it = find(...); if (it != end) erase(it); close(fd);\<close>\<close>

definition drop_client :: "int \<Rightarrow> TCP_Server \<Rightarrow> TCP_Server" where
  "drop_client fd s = sys (Sys_close fd) (s\<lparr>client_fd_list := remove1 fd (client_fd_list s)\<rparr>)"

text \<open>The loop \<^verbatim>\<open>for (auto sendfd : client_fd_list)\<close> over the rest of the vector.\<close>

fun forward :: "int \<Rightarrow> byte list \<Rightarrow> int list \<Rightarrow> TCP_Server \<Rightarrow> TCP_Server" where
  "forward fd msg [] s = s"
| "forward fd msg (sendfd # rest) s =
     forward fd msg rest (if sendfd \<noteq> fd then sys (Sys_write sendfd msg) s else s)"

definition handle_event :: "int \<Rightarrow> ev_in \<Rightarrow> TCP_Server \<Rightarrow> TCP_Server" where
  "handle_event epollfd e s =
     (if flag_set (ev_events e) EPOLLERR \<or> flag_set (ev_events e) EPOLLHUP
          \<or> \<not> flag_set (ev_events e) EPOLLIN
      then sys (Sys_close (ev_fd e)) s
      else if socketfd s = ev_fd e
      then (let (newclientfd, s1) = accept_connection (ev_accept e) (socketfd s) epollfd s
            in if newclientfd > 0
               then s1\<lparr>client_fd_list := client_fd_list s1 @ [newclientfd]\<rparr>
               else s1)
      else (let fd = ev_fd e;
                size = ev_read_size e;
                bufin = ev_read_buf e;
                s1 = sys (Sys_read fd size) s
            in if size > 0
               then (if size = 6 \<and> take 4 bufin = quit_bytes
                     then drop_client fd s1
                     else forward fd (take (nat size) bufin) (client_fd_list s1) s1)
               else drop_client fd s1))"

text \<open>The loop \<^verbatim>\<open>for (int i = 0; i < n; ++i)\<close> over the delivered entries.\<close>

fun event_batch :: "int \<Rightarrow> ev_in list \<Rightarrow> TCP_Server \<Rightarrow> TCP_Server" where
  "event_batch epollfd [] s = s"
| "event_batch epollfd (e # es) s = event_batch epollfd es (handle_event epollfd e s)"

subsection \<open>The worker\<close>

text \<open>
  One turn of the \<^verbatim>\<open>while\<close> loop as the environment shapes it: whether the other
  thread has stored \<open>false\<close> into \<^verbatim>\<open>isRunning\<close> before the loop tests it, the
  value \<open>n\<close> returned by \<^verbatim>\<open>epoll_wait\<close> (at most 32, at least \<open>-1\<close>) and the
  array it filled, of which the entries below \<open>n\<close> are handled. The loop has
  no bound of its own; a run is given finitely many turns and yields \<open>None\<close> when they
  are used up before the loop has seen the flag cleared.
\<close>

record turn =
  stop_request :: bool
  wait_n :: int
  wait_events :: "ev_in list"

fun worker_loop :: "int \<Rightarrow> turn list \<Rightarrow> TCP_Server \<Rightarrow> TCP_Server option" where
  "worker_loop epollfd [] s = None"
| "worker_loop epollfd (t # ts) s =
     (let s0 = (if stop_request t then s\<lparr>isRunning := False\<rparr> else s)
      in if isRunning s0
         then (let n = wait_n t;
                   s1 = sys (Sys_epoll_wait epollfd n) s0
               in worker_loop epollfd ts (event_batch epollfd (take (nat n) (wait_events t)) s1))
         else Some s0)"

record worker_env =
  listen_ret :: int
  epoll_create_ret :: int
  ctl_listener_ret :: int
  turns :: "turn list"

definition event_worker :: "worker_env \<Rightarrow> TCP_Server \<Rightarrow> TCP_Server option" where
  "event_worker env s =
     (let s1 = sys (Sys_listen (socketfd s) SOMAXCONN (listen_ret env)) s
      in if listen_ret env = -1 then Some s1
         else let epollfd = epoll_create_ret env;
                  s2 = sys (Sys_epoll_create1 epollfd) s1
              in if epollfd = -1 then Some s2
                 else let r = ctl_listener_ret env;
                          s3 = sys (Sys_epoll_ctl_add epollfd (socketfd s2)
                                      (EPOLLIN OR EPOLLRDHUP OR EPOLLERR OR EPOLLHUP) r) s2
                      in if r = -1 then Some s3
                         else (case worker_loop epollfd (turns env) (s3\<lparr>worker_state := True\<rparr>) of
                                 None \<Rightarrow> None
                               | Some s4 \<Rightarrow>
                                   Some (sys (Sys_close epollfd)
                                          (sys (Sys_close (socketfd s4)) (s4\<lparr>worker_state := False\<rparr>)))))"

text \<open>
  The state in which the worker enters its loop when \<^verbatim>\<open>listen\<close>,
  \<^verbatim>\<open>epoll_create1\<close> and the arming of the listener have succeeded.
\<close>

definition worker_online :: "worker_env \<Rightarrow> TCP_Server \<Rightarrow> TCP_Server" where
  "worker_online env s =
     (sys (Sys_epoll_ctl_add (epoll_create_ret env) (socketfd s)
            (EPOLLIN OR EPOLLRDHUP OR EPOLLERR OR EPOLLHUP) (ctl_listener_ret env))
       (sys (Sys_epoll_create1 (epoll_create_ret env))
         (sys (Sys_listen (socketfd s) SOMAXCONN (listen_ret env)) s)))\<lparr>worker_state := True\<rparr>"

subsection \<open>Construction, liveness and destruction\<close>

text \<open>The kernel's answers to the calls of \<^verbatim>\<open>create_and_bind\<close>.\<close>

record bind_env =
  socket_ret :: int
  setsockopt_ret :: int
  gethostbyname_ok :: bool
  bind_ret :: int

text \<open>
  The socket descriptor is compared with \<open>0\<close>, as the source does. The host name is
  resolved unless it is the literal \<^verbatim>\<open>INADDR_ANY\<close>.
\<close>

definition create_and_bind :: "bind_env \<Rightarrow> string \<Rightarrow> 16 word \<Rightarrow> TCP_Server \<Rightarrow> int \<times> TCP_Server" where
  "create_and_bind env localHost localPort s =
     (let s1 = sys (Sys_socket (socket_ret env)) (s\<lparr>socketfd := socket_ret env\<rparr>)
      in if socketfd s1 = 0 then (-1, s1)
         else let s2 = sys (Sys_setsockopt (socketfd s1) (setsockopt_ret env)) s1;
                  resolve = (localHost \<noteq> ''INADDR_ANY'');
                  s3 = (if resolve then sys (Sys_gethostbyname localHost (gethostbyname_ok env)) s2 else s2)
              in if resolve \<and> \<not> gethostbyname_ok env then (-1, s3)
                 else let s4 = sys (Sys_bind (socketfd s3) localPort (bind_ret env)) s3
                      in if bind_ret env \<noteq> 0 then (-1, sys (Sys_close (socketfd s4)) s4)
                         else (0, s4))"

text \<open>
  \<^verbatim>\<open>start_event_worker\<close> initialises both flags and starts the thread; what the
  thread then does is \<open>event_worker\<close>.
\<close>

definition start_event_worker :: "TCP_Server \<Rightarrow> TCP_Server" where
  "start_event_worker s = s\<lparr>worker_state := False, isRunning := True, epoll_worker := Started\<rparr>"

definition TCP_Server_host_port :: "bind_env \<Rightarrow> string \<Rightarrow> 16 word \<Rightarrow> TCP_Server \<Rightarrow> TCP_Server" where
  "TCP_Server_host_port env localHost localPort s =
     (let (r, s1) = create_and_bind env localHost localPort s
      in if r = 0 then start_event_worker s1 else s1)"

definition TCP_Server_port :: "bind_env \<Rightarrow> 16 word \<Rightarrow> TCP_Server \<Rightarrow> TCP_Server" where
  "TCP_Server_port env localPort s =
     (let (r, s1) = create_and_bind env ''0.0.0.0'' localPort s
      in if r = 0 then start_event_worker s1 else s1)"

text \<open>
  The object before a constructor body runs: the vector is empty and the thread is
  default-constructed; the three scalar members have no initialiser, so their values are
  whatever the storage held. The process has its three standard descriptors open.
\<close>

definition fresh_object :: "int \<Rightarrow> bool \<Rightarrow> bool \<Rightarrow> TCP_Server" where
  "fresh_object fd0 ws0 run0 =
     \<lparr>socketfd = fd0, worker_state = ws0, isRunning = run0, epoll_worker = Not_started,
      client_fd_list = [], trace = [], open_fds = {0, 1, 2}, nonblocking = {}, armed = {}\<rparr>"

definition isAlive :: "TCP_Server \<Rightarrow> bool" where
  "isAlive s = isRunning s"

text \<open>
  \<^verbatim>\<open>std::thread::join\<close> throws \<^verbatim>\<open>std::system_error\<close> when the thread is
  not joinable; otherwise it returns once the worker has returned.
\<close>

datatype error = System_error

definition thread_join :: "thread_state \<Rightarrow> error + thread_state" where
  "thread_join t = (if t = Started then Inr Joined else Inl System_error)"

definition stop_event_worker :: "TCP_Server \<Rightarrow> error + TCP_Server" where
  "stop_event_worker s =
     (let s1 = s\<lparr>isRunning := False\<rparr>
      in case thread_join (epoll_worker s1) of
           Inl err \<Rightarrow> Inl err
         | Inr t \<Rightarrow> Inr (s1\<lparr>epoll_worker := t\<rparr>))"

definition TCP_Server_destructor :: "TCP_Server \<Rightarrow> error + TCP_Server" where
  "TCP_Server_destructor s = stop_event_worker s"

subsection \<open>Classes of events and observations on the log\<close>

text \<open>The three branches of the dispatcher, as conditions on an entry.\<close>

definition terminal_event :: "ev_in \<Rightarrow> bool" where
  "terminal_event e =
     (flag_set (ev_events e) EPOLLERR \<or> flag_set (ev_events e) EPOLLHUP
      \<or> \<not> flag_set (ev_events e) EPOLLIN)"

definition listener_event :: "TCP_Server \<Rightarrow> ev_in \<Rightarrow> bool" where
  "listener_event s e = (\<not> terminal_event e \<and> socketfd s = ev_fd e)"

definition client_data_event :: "TCP_Server \<Rightarrow> ev_in \<Rightarrow> bool" where
  "client_data_event s e = (\<not> terminal_event e \<and> socketfd s \<noteq> ev_fd e)"

definition quit_sentinel :: "ev_in \<Rightarrow> bool" where
  "quit_sentinel e = (ev_read_size e = 6 \<and> take 4 (ev_read_buf e) = quit_bytes)"

text \<open>The writes of a log, in order: descriptor and bytes.\<close>

fun written :: "syscall \<Rightarrow> (int \<times> byte list) list" where
  "written (Sys_write fd msg) = [(fd, msg)]"
| "written c = []"

definition writes :: "syscall list \<Rightarrow> (int \<times> byte list) list" where
  "writes tr = concat (map written tr)"

text \<open>The calls to \<^verbatim>\<open>accept\<close> of a log, in order, with the value each returned.\<close>

fun accept_call :: "syscall \<Rightarrow> int list" where
  "accept_call (Sys_accept sock r) = [r]"
| "accept_call c = []"

definition accept_calls :: "syscall list \<Rightarrow> int list" where
  "accept_calls tr = concat (map accept_call tr)"

text \<open>
  The descriptors a log arms successfully, in order. Inside the loop these are the
  accepted connections; those above \<open>0\<close> are the ones pushed onto the vector.
\<close>

fun arm_call :: "syscall \<Rightarrow> int list" where
  "arm_call (Sys_epoll_ctl_add ep fd ev r) = (if r \<noteq> -1 \<and> fd > 0 then [fd] else [])"
| "arm_call c = []"

definition insertion_order :: "syscall list \<Rightarrow> int list" where
  "insertion_order tr = concat (map arm_call tr)"

text \<open>The descriptors a log closes, in order.\<close>

fun close_call :: "syscall \<Rightarrow> int list" where
  "close_call (Sys_close fd) = [fd]"
| "close_call c = []"

definition closes :: "syscall list \<Rightarrow> int list" where
  "closes tr = concat (map close_call tr)"

text \<open>
  Conditions on the kernel's answers to one \<^verbatim>\<open>accept_connection\<close>: every call
  succeeded; the switch to non-blocking mode failed.
\<close>

definition accept_succeeds :: "accept_env \<Rightarrow> bool" where
  "accept_succeeds env =
     (accept_ret env \<noteq> -1 \<and> getfl_ret env \<noteq> -1 \<and> setfl_ret env \<noteq> -1 \<and> ctl_ret env \<noteq> -1)"


text \<open>The calls one \<^verbatim>\<open>accept_connection\<close> makes, in order, as far as it gets.\<close>

definition accept_log :: "accept_env \<Rightarrow> int \<Rightarrow> int \<Rightarrow> syscall list" where
  "accept_log env sock epollfd =
     (if accept_ret env = -1 then [Sys_accept sock (-1)]
      else [Sys_accept sock (accept_ret env), Sys_getnameinfo (getnameinfo_ret env),
            Sys_fcntl_getfl (accept_ret env) (getfl_ret env)] @
           (if getfl_ret env = -1 then []
            else Sys_fcntl_setfl (accept_ret env) (getfl_ret env OR O_NONBLOCK) (setfl_ret env) #
                 (if setfl_ret env = -1 then []
                  else [Sys_epoll_ctl_add epollfd (accept_ret env)
                          (EPOLLIN OR EPOLLRDHUP OR EPOLLERR OR EPOLLHUP) (ctl_ret env)])))"

subsection \<open>Concrete runs\<close>

text \<open>
  A server whose startup succeeded: listener \<open>3\<close>, epoll descriptor \<open>4\<close>, worker online,
  no client yet. It is the state the worker reaches before its first turn when every
  startup call succeeds (lemma \<open>online_server_eq\<close>).
\<close>

definition bind_ok :: bind_env where
  "bind_ok = \<lparr>socket_ret = 3, setsockopt_ret = 0, gethostbyname_ok = True, bind_ret = 0\<rparr>"

definition constructed_server :: TCP_Server where
  "constructed_server = TCP_Server_port bind_ok 9090 (fresh_object 0 False False)"

definition online_server :: TCP_Server where
  "online_server =
     (sys (Sys_epoll_ctl_add 4 3 (EPOLLIN OR EPOLLRDHUP OR EPOLLERR OR EPOLLHUP) 0)
       (sys (Sys_epoll_create1 4)
         (sys (Sys_listen 3 SOMAXCONN 0) constructed_server)))\<lparr>worker_state := True\<rparr>"

text \<open>Answers of the kernel: an accept that succeeds with descriptor \<open>fd\<close>, and none pending.\<close>

definition accept_ok :: "int \<Rightarrow> accept_env" where
  "accept_ok fd = \<lparr>accept_ret = fd, accept_errno = 0, getnameinfo_ret = 0,
                   getfl_ret = 2, setfl_ret = 0, ctl_ret = 0\<rparr>"

definition accept_none :: accept_env where
  "accept_none = \<lparr>accept_ret = -1, accept_errno = EAGAIN, getnameinfo_ret = 0,
                  getfl_ret = 0, setfl_ret = 0, ctl_ret = 0\<rparr>"

text \<open>
  Entries: the listener \<open>3\<close> readable with a connection that is accepted as \<open>fd\<close>; the
  descriptor \<open>fd\<close> readable with the bytes \<open>msg\<close>; the descriptor \<open>fd\<close> hung up.
\<close>

definition ev_connect :: "int \<Rightarrow> ev_in" where
  "ev_connect fd = \<lparr>ev_events = EPOLLIN, ev_fd = 3, ev_accept = accept_ok fd,
                    ev_read_size = 0, ev_read_buf = []\<rparr>"

definition ev_data :: "int \<Rightarrow> byte list \<Rightarrow> ev_in" where
  "ev_data fd msg = \<lparr>ev_events = EPOLLIN, ev_fd = fd, ev_accept = accept_none,
                     ev_read_size = int (length msg), ev_read_buf = msg\<rparr>"

definition ev_hangup :: "int \<Rightarrow> ev_in" where
  "ev_hangup fd = \<lparr>ev_events = EPOLLIN OR EPOLLHUP, ev_fd = fd, ev_accept = accept_none,
                   ev_read_size = 0, ev_read_buf = []\<rparr>"

text \<open>A turn that delivers the given entries, and the turn in which the flag is found cleared.\<close>

definition deliver :: "ev_in list \<Rightarrow> turn" where
  "deliver es = \<lparr>stop_request = False, wait_n = int (length es), wait_events = es\<rparr>"

definition stop_turn :: turn where
  "stop_turn = \<lparr>stop_request = True, wait_n = 0, wait_events = []\<rparr>"



text \<open>Startup answers of the kernel with which the worker goes online on epoll descriptor \<open>4\<close>.\<close>

definition startup_ok :: "turn list \<Rightarrow> worker_env" where
  "startup_ok ts = \<lparr>listen_ret = 0, epoll_create_ret = 4, ctl_listener_ret = 0, turns = ts\<rparr>"

text \<open>A bind that fails (the port is in use), and startups in which a later call fails.\<close>

definition bind_in_use :: bind_env where
  "bind_in_use = \<lparr>socket_ret = 3, setsockopt_ret = 0, gethostbyname_ok = True, bind_ret = -1\<rparr>"

definition listen_fails :: worker_env where
  "listen_fails = \<lparr>listen_ret = -1, epoll_create_ret = 4, ctl_listener_ret = 0, turns = []\<rparr>"

definition epoll_create_fails :: worker_env where
  "epoll_create_fails = \<lparr>listen_ret = 0, epoll_create_ret = -1, ctl_listener_ret = 0, turns = []\<rparr>"

text \<open>
  A run in which three clients connect as \<open>5\<close>, \<open>6\<close> and \<open>7\<close>, client \<open>6\<close> sends the
  quit sentinel, and the flag is cleared.
\<close>

definition three_clients_one_quits :: "turn list" where
  "three_clients_one_quits =
     [deliver [ev_connect 5], deliver [ev_connect 6], deliver [ev_connect 7],
      deliver [ev_data 6 (quit_bytes @ [0x0D, 0x0A])], stop_turn]"

section \<open>Properties\<close>

subsection \<open>Effects of the building blocks\<close>

lemma kernel_fields [simp]:
  "trace (kernel c s) = trace s"
  "socketfd (kernel c s) = socketfd s"
  "client_fd_list (kernel c s) = client_fd_list s"
  "isRunning (kernel c s) = isRunning s"
  "worker_state (kernel c s) = worker_state s"
  "epoll_worker (kernel c s) = epoll_worker s"
  by (cases c; simp)+

lemma sys_fields [simp]:
  "trace (sys c s) = trace s @ [c]"
  "socketfd (sys c s) = socketfd s"
  "client_fd_list (sys c s) = client_fd_list s"
  "isRunning (sys c s) = isRunning s"
  "worker_state (sys c s) = worker_state s"
  "epoll_worker (sys c s) = epoll_worker s"
  by (simp_all add: sys_def)

lemma sys_close_kernel [simp]:
  "open_fds (sys (Sys_close fd) s) = open_fds s - {fd}"
  "nonblocking (sys (Sys_close fd) s) = nonblocking s - {fd}"
  "armed (sys (Sys_close fd) s) = armed s - {fd}"
  by (simp_all add: sys_def)

lemma forward_fields [simp]:
  "socketfd (forward fd msg cs s) = socketfd s"
  "client_fd_list (forward fd msg cs s) = client_fd_list s"
  "isRunning (forward fd msg cs s) = isRunning s"
  "worker_state (forward fd msg cs s) = worker_state s"
  "epoll_worker (forward fd msg cs s) = epoll_worker s"
  by (induction cs arbitrary: s; simp)+

lemma trace_forward:
  "trace (forward fd msg cs s) = trace s @ map (\<lambda>c. Sys_write c msg) (filter (\<lambda>c. c \<noteq> fd) cs)"
  by (induction cs arbitrary: s) simp_all

lemma drop_client_fields [simp]:
  "trace (drop_client fd s) = trace s @ [Sys_close fd]"
  "socketfd (drop_client fd s) = socketfd s"
  "client_fd_list (drop_client fd s) = remove1 fd (client_fd_list s)"
  "isRunning (drop_client fd s) = isRunning s"
  "worker_state (drop_client fd s) = worker_state s"
  "epoll_worker (drop_client fd s) = epoll_worker s"
  by (simp_all add: drop_client_def)

lemma emitted_append [simp]: "trace s' = trace s @ new \<Longrightarrow> emitted s s' = new"
  by (simp add: emitted_def)

lemma handle_terminal:
  "terminal_event e \<Longrightarrow> handle_event epollfd e s = sys (Sys_close (ev_fd e)) s"
  by (simp add: handle_event_def terminal_event_def)

lemma handle_listener:
  "listener_event s e \<Longrightarrow> handle_event epollfd e s =
     (let (newclientfd, s1) = accept_connection (ev_accept e) (socketfd s) epollfd s
      in if newclientfd > 0
         then s1\<lparr>client_fd_list := client_fd_list s1 @ [newclientfd]\<rparr>
         else s1)"
  by (simp add: handle_event_def terminal_event_def listener_event_def)

lemma handle_client_data:
  "client_data_event s e \<Longrightarrow> handle_event epollfd e s =
     (let s1 = sys (Sys_read (ev_fd e) (ev_read_size e)) s
      in if ev_read_size e > 0
         then (if quit_sentinel e then drop_client (ev_fd e) s1
               else forward (ev_fd e) (take (nat (ev_read_size e)) (ev_read_buf e)) (client_fd_list s1) s1)
         else drop_client (ev_fd e) s1)"
  by (simp add: handle_event_def client_data_event_def terminal_event_def quit_sentinel_def Let_def)

lemma event_cases:
  "terminal_event e \<or> listener_event s e \<or> client_data_event s e"
  by (auto simp add: listener_event_def client_data_event_def)

subsection \<open>The quit sentinel\<close>

text \<open>
  What the handler does with a payload, in every state. When an entry is handled as
  client data and \<^verbatim>\<open>read\<close> returned \<open>size > 0\<close> bytes, the quit path is taken
  exactly when \<open>size = 6\<close> and the first four bytes of the buffer are
  \<^verbatim>\<open>quit\<close>: the descriptor is closed and its first occurrence is erased from the
  vector, with no write. Every other payload, of any other length or with other leading
  bytes, is written once to each entry of the vector other than the sender, and the
  vector is left as it was. In particular the four bytes \<^verbatim>\<open>quit\<close> alone are
  forwarded.
\<close>

lemma quit_sentinel_decides:
  assumes "client_data_event s e" and "0 < ev_read_size e"
  shows "(quit_sentinel e \<longrightarrow>
            emitted s (handle_event epollfd e s) = [Sys_read (ev_fd e) 6, Sys_close (ev_fd e)]
          \<and> client_fd_list (handle_event epollfd e s) = remove1 (ev_fd e) (client_fd_list s))
       \<and> (\<not> quit_sentinel e \<longrightarrow>
            emitted s (handle_event epollfd e s) =
              Sys_read (ev_fd e) (ev_read_size e) #
              map (\<lambda>c. Sys_write c (take (nat (ev_read_size e)) (ev_read_buf e)))
                  (filter (\<lambda>c. c \<noteq> ev_fd e) (client_fd_list s))
          \<and> client_fd_list (handle_event epollfd e s) = client_fd_list s)
       \<and> (Sys_close (ev_fd e) \<in> set (emitted s (handle_event epollfd e s))) = quit_sentinel e"
proof (cases "quit_sentinel e")
  case True
  with assms show ?thesis
    by (simp add: handle_client_data Let_def quit_sentinel_def)
next
  case False
  with assms have tr: "trace (handle_event epollfd e s) = trace s @
      Sys_read (ev_fd e) (ev_read_size e) #
      map (\<lambda>c. Sys_write c (take (nat (ev_read_size e)) (ev_read_buf e)))
          (filter (\<lambda>c. c \<noteq> ev_fd e) (client_fd_list s))"
    by (simp add: handle_client_data Let_def trace_forward)
  from assms False have reg: "client_fd_list (handle_event epollfd e s) = client_fd_list s"
    by (simp add: handle_client_data Let_def)
  from tr reg False show ?thesis
    by (auto simp add: emitted_append [OF tr])
qed

lemma client_data_ev_data:
  "fd \<noteq> 3 \<Longrightarrow> client_data_event (online_server\<lparr>client_fd_list := cs\<rparr>) (ev_data fd msg)"
  by (simp add: client_data_event_def terminal_event_def ev_data_def flag_set_def EPOLLIN_def
      EPOLLERR_def EPOLLHUP_def online_server_def constructed_server_def TCP_Server_port_def
      create_and_bind_def bind_ok_def fresh_object_def start_event_worker_def Let_def)

lemma quit_sentinel_decides_example:
  "client_data_event (online_server\<lparr>client_fd_list := [5, 6]\<rparr>) (ev_data 5 quit_bytes)
   \<and> 0 < ev_read_size (ev_data 5 quit_bytes)
   \<and> \<not> quit_sentinel (ev_data 5 quit_bytes)
   \<and> emitted (online_server\<lparr>client_fd_list := [5, 6]\<rparr>)
        (handle_event 4 (ev_data 5 quit_bytes) (online_server\<lparr>client_fd_list := [5, 6]\<rparr>))
      = [Sys_read 5 4, Sys_write 6 quit_bytes]
   \<and> client_data_event (online_server\<lparr>client_fd_list := [5, 6]\<rparr>) (ev_data 5 (quit_bytes @ [0x0D, 0x0A]))
   \<and> quit_sentinel (ev_data 5 (quit_bytes @ [0x0D, 0x0A]))
   \<and> emitted (online_server\<lparr>client_fd_list := [5, 6]\<rparr>)
        (handle_event 4 (ev_data 5 (quit_bytes @ [0x0D, 0x0A])) (online_server\<lparr>client_fd_list := [5, 6]\<rparr>))
      = [Sys_read 5 6, Sys_close 5]
   \<and> client_fd_list (handle_event 4 (ev_data 5 (quit_bytes @ [0x0D, 0x0A])) (online_server\<lparr>client_fd_list := [5, 6]\<rparr>)) = [6]"
proof -
  let ?s = "online_server\<lparr>client_fd_list := [5, 6]\<rparr>"
  have a: "client_data_event ?s (ev_data 5 quit_bytes)"
    and b: "client_data_event ?s (ev_data 5 (quit_bytes @ [0x0D, 0x0A]))"
    by (simp_all add: client_data_ev_data)
  have c: "0 < ev_read_size (ev_data 5 quit_bytes)" "0 < ev_read_size (ev_data 5 (quit_bytes @ [0x0D, 0x0A]))"
    by (simp_all add: ev_data_def quit_bytes_def)
  have d: "\<not> quit_sentinel (ev_data 5 quit_bytes)" "quit_sentinel (ev_data 5 (quit_bytes @ [0x0D, 0x0A]))"
    by (simp_all add: quit_sentinel_def ev_data_def quit_bytes_def)
  show ?thesis
    using quit_sentinel_decides [OF a c(1), of 4] quit_sentinel_decides [OF b c(2), of 4] a b c d
    by (simp add: ev_data_def quit_bytes_def)
qed

text \<open>
  Claim C2 fails on the code, through the defect shown for claim C4. The branch on the
  payload is as the claim says, but the quit path erases one occurrence of the sender
  only, and the vector can hold a descriptor twice. Client \<open>5\<close> is accepted and then
  reported hung up: \<open>5\<close> is closed but stays in the vector. The next connection is given
  the free descriptor \<open>5\<close> again and is pushed as a second entry; a third client
  connects as \<open>6\<close>. Now \<open>5\<close> sends the six bytes \<^verbatim>\<open>quit\<close>, CR, LF: it is closed
  and one entry is erased, the other stays. When \<open>6\<close> then sends the byte \<open>m\<close>, the
  vector is \<open>[5, 6]\<close>, descriptor \<open>5\<close> is closed, and the byte is written to \<open>5\<close>: the
  sender of the sentinel was closed and not unregistered.
\<close>

theorem quit_leaves_sender_registered:
  "map_option (\<lambda>s. (client_fd_list s, 5 \<in> open_fds s, writes (emitted online_server s)))
     (worker_loop 4 [deliver [ev_connect 5], deliver [ev_hangup 5], deliver [ev_connect 5],
                     deliver [ev_connect 6], deliver [ev_data 5 (quit_bytes @ [0x0D, 0x0A])],
                     deliver [ev_data 6 [0x6D]], stop_turn] online_server)
   = Some ([5, 6], False, [(5, [0x6D])])"
  by code_simp

text \<open>
  A read that returns no payload (\<open>size \<le> 0\<close>: end of file or an error) takes the
  third path: the descriptor is erased and closed, and nothing is written.
\<close>

lemma read_error_closes:
  assumes "client_data_event s e" and "ev_read_size e \<le> 0"
  shows "emitted s (handle_event epollfd e s) = [Sys_read (ev_fd e) (ev_read_size e), Sys_close (ev_fd e)]"
    and "client_fd_list (handle_event epollfd e s) = remove1 (ev_fd e) (client_fd_list s)"
  using assms by (simp_all add: handle_client_data Let_def)

subsection \<open>The accept helper\<close>

lemma accept_connection_result:
  "fst (accept_connection env sock epollfd s) = (if accept_succeeds env then accept_ret env else -1)"
  by (simp add: accept_connection_def make_socket_nonblocking_def accept_succeeds_def Let_def)

lemma accept_connection_fields [simp]:
  "socketfd (snd (accept_connection env sock epollfd s)) = socketfd s"
  "client_fd_list (snd (accept_connection env sock epollfd s)) = client_fd_list s"
  "isRunning (snd (accept_connection env sock epollfd s)) = isRunning s"
  "worker_state (snd (accept_connection env sock epollfd s)) = worker_state s"
  "epoll_worker (snd (accept_connection env sock epollfd s)) = epoll_worker s"
  by (simp_all add: accept_connection_def make_socket_nonblocking_def Let_def)

lemma accept_connection_trace:
  "trace (snd (accept_connection env sock epollfd s)) = trace s @ accept_log env sock epollfd"
  by (simp add: accept_connection_def make_socket_nonblocking_def accept_log_def Let_def)

lemma handle_listener_trace:
  "listener_event s e \<Longrightarrow>
   trace (handle_event epollfd e s) = trace s @ accept_log (ev_accept e) (socketfd s) epollfd"
  by (simp add: handle_listener accept_connection_trace split_beta)

lemma handle_listener_registry:
  "listener_event s e \<Longrightarrow>
   client_fd_list (handle_event epollfd e s) =
     (if accept_succeeds (ev_accept e) \<and> accept_ret (ev_accept e) > 0
      then client_fd_list s @ [accept_ret (ev_accept e)] else client_fd_list s)"
  using accept_connection_result [of "ev_accept e" "socketfd s" epollfd s]
  by (simp add: handle_listener split_beta)

lemma accept_calls_accept_log: "accept_calls (accept_log env sock epollfd) = [accept_ret env]"
  by (simp add: accept_calls_def accept_log_def)

subsection \<open>A readable listener\<close>

text \<open>
  Claim C5, as amended. On a readiness entry for the listener the dispatcher calls the
  accept helper once, and the helper calls \<^verbatim>\<open>accept\<close> once, whatever it returns:
  there is no loop until would-block. If every call of the helper succeeded and the
  descriptor is above \<open>0\<close> it is appended to the vector; otherwise the vector is left as
  it was. In both cases the dispatcher goes on with the next entry of the batch.
\<close>

theorem one_accept_per_listener_event:
  assumes "listener_event s e"
  shows "accept_calls (emitted s (handle_event epollfd e s)) = [accept_ret (ev_accept e)]
       \<and> client_fd_list (handle_event epollfd e s) =
           (if accept_succeeds (ev_accept e) \<and> accept_ret (ev_accept e) > 0
            then client_fd_list s @ [accept_ret (ev_accept e)] else client_fd_list s)
       \<and> event_batch epollfd (e # es) s = event_batch epollfd es (handle_event epollfd e s)"
  using assms
  by (simp add: handle_listener_trace handle_listener_registry accept_calls_accept_log)

lemma online_server_simps:
  "socketfd online_server = 3" "client_fd_list online_server = []"
  "isRunning online_server" "worker_state online_server"
  "open_fds online_server = {0, 1, 2, 3, 4}" "armed online_server = {3}" "nonblocking online_server = {}"
  by (auto simp add: online_server_def constructed_server_def TCP_Server_port_def
      create_and_bind_def bind_ok_def fresh_object_def start_event_worker_def sys_def Let_def)

lemma listener_ev_connect: "listener_event online_server (ev_connect fd)"
  by (simp add: listener_event_def terminal_event_def ev_connect_def flag_set_def EPOLLIN_def
      EPOLLERR_def EPOLLHUP_def online_server_simps)

theorem one_accept_per_listener_event_witness:
  "listener_event online_server (ev_connect 5)
   \<and> accept_calls (emitted online_server (handle_event 4 (ev_connect 5) online_server)) = [5]
   \<and> client_fd_list (handle_event 4 (ev_connect 5) online_server) = [5]"
  using one_accept_per_listener_event [OF listener_ev_connect, of 4 5 "[]"] listener_ev_connect [of 5]
  by (simp add: ev_connect_def accept_ok_def accept_succeeds_def online_server_simps)

lemma connect_log:
  "emitted online_server (handle_event 4 (ev_connect fd) online_server) = accept_log (accept_ok fd) 3 4"
  using handle_listener_trace [OF listener_ev_connect, of 4 fd]
  by (simp add: online_server_simps ev_connect_def)

text \<open>
  The claim as written fails: with a connection pending, the one call returns the new
  descriptor \<open>5\<close> and no further call is made, so no call of the burst reports
  would-block (\<open>-1\<close>).
\<close>

theorem accept_burst_counterexample:
  "accept_calls (emitted online_server (handle_event 4 (ev_connect 5) online_server)) = [5]
   \<and> -1 \<notin> set (accept_calls (emitted online_server (handle_event 4 (ev_connect 5) online_server)))"
  by (simp add: connect_log accept_calls_accept_log accept_ok_def)



subsection \<open>Non-blocking mode of an accepted descriptor\<close>





lemma handle_event_socketfd [simp]: "socketfd (handle_event epollfd e s) = socketfd s"
  using event_cases [of e s]
  by (auto simp add: handle_terminal handle_listener handle_client_data Let_def split_beta)

lemma handle_event_flags [simp]:
  "isRunning (handle_event epollfd e s) = isRunning s"
  "worker_state (handle_event epollfd e s) = worker_state s"
  "epoll_worker (handle_event epollfd e s) = epoll_worker s"
  using event_cases [of e s]
  by (auto simp add: handle_terminal handle_listener handle_client_data Let_def split_beta
      split: if_splits)

lemma event_batch_fields [simp]:
  "socketfd (event_batch epollfd es s) = socketfd s"
  "isRunning (event_batch epollfd es s) = isRunning s"
  "worker_state (event_batch epollfd es s) = worker_state s"
  "epoll_worker (event_batch epollfd es s) = epoll_worker s"
  by (induction es arbitrary: s; simp)+

lemma worker_loop_fields:
  "worker_loop epollfd ts s = Some s' \<Longrightarrow>
     socketfd s' = socketfd s \<and> worker_state s' = worker_state s
   \<and> epoll_worker s' = epoll_worker s \<and> \<not> isRunning s'"
  by (induction ts arbitrary: s) (auto simp add: Let_def split: if_splits)

subsection \<open>Terminal events\<close>





subsection \<open>The registry between turns\<close>

text \<open>
  Claim C4 fails on the code. The state the loop holds when it tests its condition after
  the two turns "connection accepted as \<open>5\<close>" and "\<open>5\<close> hung up": the descriptor \<open>5\<close>
  is closed and no longer armed, and it is still in the vector. The branch for terminal
  events only calls \<^verbatim>\<open>close\<close>; the two other branches that close a client erase it
  from the vector first.
\<close>

theorem closed_descriptor_stays_registered:
  "map_option (\<lambda>s. (client_fd_list s, 5 \<in> open_fds s, 5 \<in> armed s))
     (worker_loop 4 [deliver [ev_connect 5], deliver [ev_hangup 5], stop_turn] online_server)
   = Some ([5], False, False)"
  by code_simp

subsection \<open>Fan-out\<close>

text \<open>
  What the fan-out does in every state: one write of the bytes read per entry of the
  vector that differs from the sender, in the order of the vector, and nothing else.
\<close>

lemma fanout_writes:
  assumes "client_data_event s e" and "0 < ev_read_size e" and "\<not> quit_sentinel e"
  shows "writes (emitted s (handle_event epollfd e s)) =
           map (\<lambda>c. (c, take (nat (ev_read_size e)) (ev_read_buf e)))
               (filter (\<lambda>c. c \<noteq> ev_fd e) (client_fd_list s))"
proof -
  have "trace (handle_event epollfd e s) = trace s @
      Sys_read (ev_fd e) (ev_read_size e) #
      map (\<lambda>c. Sys_write c (take (nat (ev_read_size e)) (ev_read_buf e)))
          (filter (\<lambda>c. c \<noteq> ev_fd e) (client_fd_list s))"
    using assms by (simp add: handle_client_data Let_def trace_forward)
  then have "emitted s (handle_event epollfd e s) =
      Sys_read (ev_fd e) (ev_read_size e) #
      map (\<lambda>c. Sys_write c (take (nat (ev_read_size e)) (ev_read_buf e)))
          (filter (\<lambda>c. c \<noteq> ev_fd e) (client_fd_list s))"
    by (rule emitted_append)
  then show ?thesis
    by (simp add: writes_def) (induction "client_fd_list s", simp_all add: comp_def)
qed

text \<open>
  While no descriptor is in the vector twice this is one write to every other client
  and none to the sender.
\<close>

lemma count_list_distinct:
  "distinct xs \<Longrightarrow> count_list xs c = (if c \<in> set xs then 1 else 0)"
  by (induction xs) auto

lemma fanout_once_if_distinct:
  assumes "client_data_event s e" and "0 < ev_read_size e" and "\<not> quit_sentinel e"
    and "distinct (client_fd_list s)"
  shows "count_list (map fst (writes (emitted s (handle_event epollfd e s)))) c =
           (if c \<in> set (client_fd_list s) \<and> c \<noteq> ev_fd e then 1 else 0)"
proof -
  have "map fst (writes (emitted s (handle_event epollfd e s))) =
          filter (\<lambda>c. c \<noteq> ev_fd e) (client_fd_list s)"
    using assms(1-3) by (simp add: fanout_writes comp_def)
  moreover have "distinct (filter (\<lambda>c. c \<noteq> ev_fd e) (client_fd_list s))"
    using assms(4) by simp
  ultimately show ?thesis
    by (simp add: count_list_distinct)
qed

text \<open>
  Claim C1 fails on the code, through the defect shown for claim C4. Client \<open>5\<close> is
  accepted and then reported hung up: \<open>5\<close> is closed but stays in the vector. The next
  connection is given the free descriptor \<open>5\<close> again and is pushed as a second entry.
  After a third client \<open>6\<close> has connected and sent the byte \<open>x\<close>, the vector is
  \<open>[5, 5, 6]\<close> and the byte has been written to client \<open>5\<close> twice.
\<close>

theorem stale_entry_doubles_delivery:
  "map_option (\<lambda>s. (client_fd_list s, writes (emitted online_server s)))
     (worker_loop 4 [deliver [ev_connect 5], deliver [ev_hangup 5], deliver [ev_connect 5],
                     deliver [ev_connect 6], deliver [ev_data 6 [0x78]], stop_turn] online_server)
   = Some ([5, 5, 6], [(5, [0x78]), (5, [0x78])])"
  by code_simp

subsection \<open>Leaving the loop\<close>

lemma online_server_eq: "online_server = worker_online (startup_ok ts) constructed_server"
proof -
  have "socketfd constructed_server = 3"
    by (simp add: constructed_server_def TCP_Server_port_def create_and_bind_def bind_ok_def
        start_event_worker_def Let_def)
  then show ?thesis
    by (simp add: online_server_def worker_online_def startup_ok_def)
qed


text \<open>
  Claim C6, as amended. When the worker went online and its loop has ended, which it
  does only on finding the running flag cleared, the worker publishes "offline" and
  then makes exactly two calls: \<^verbatim>\<open>close\<close> on the listener
  and \<^verbatim>\<open>close\<close> on the epoll descriptor. The vector is left as the loop left it, and
  no other descriptor is released.
\<close>

theorem worker_exit_closes_listener_and_epoll:
  assumes "event_worker env s = Some s'"
    and "listen_ret env \<noteq> -1" and "epoll_create_ret env \<noteq> -1" and "ctl_listener_ret env \<noteq> -1"
  shows "\<exists>s4. worker_loop (epoll_create_ret env) (turns env) (worker_online env s) = Some s4
           \<and> emitted s4 s' = [Sys_close (socketfd s), Sys_close (epoll_create_ret env)]
           \<and> client_fd_list s' = client_fd_list s4
           \<and> open_fds s' = open_fds s4 - {socketfd s, epoll_create_ret env}
           \<and> \<not> isRunning s4
           \<and> \<not> worker_state s'"
proof -
  from assms obtain s4
    where loop: "worker_loop (epoll_create_ret env) (turns env) (worker_online env s) = Some s4"
      and s': "s' = sys (Sys_close (epoll_create_ret env))
                      (sys (Sys_close (socketfd s4)) (s4\<lparr>worker_state := False\<rparr>))"
    by (auto simp add: event_worker_def worker_online_def Let_def split: option.splits)
  have fd: "socketfd s4 = socketfd s"
    using worker_loop_fields [OF loop] by (simp add: worker_online_def)
  have "trace s' = trace s4 @ [Sys_close (socketfd s), Sys_close (epoll_create_ret env)]"
    by (simp add: s' fd)
  then have "emitted s4 s' = [Sys_close (socketfd s), Sys_close (epoll_create_ret env)]"
    by (rule emitted_append)
  moreover have "client_fd_list s' = client_fd_list s4" "\<not> worker_state s'"
    by (simp_all add: s')
  moreover have "open_fds s' = open_fds s4 - {socketfd s, epoll_create_ret env}"
    by (auto simp add: s' fd sys_def)
  moreover have "\<not> isRunning s4"
    using worker_loop_fields [OF loop] by simp
  ultimately show ?thesis
    using loop by blast
qed

theorem worker_exit_closes_listener_and_epoll_witness:
  "event_worker (startup_ok [deliver [ev_connect 5], stop_turn]) constructed_server \<noteq> None
   \<and> (\<exists>s4. worker_loop 4 [deliver [ev_connect 5], stop_turn] online_server = Some s4
        \<and> emitted s4 (the (event_worker (startup_ok [deliver [ev_connect 5], stop_turn]) constructed_server))
            = [Sys_close 3, Sys_close 4]
        \<and> client_fd_list (the (event_worker (startup_ok [deliver [ev_connect 5], stop_turn]) constructed_server))
            = client_fd_list s4)"
proof -
  let ?env = "startup_ok [deliver [ev_connect 5], stop_turn]"
  have some: "event_worker ?env constructed_server
      = Some (the (event_worker ?env constructed_server))"
    by code_simp
  have fd: "socketfd constructed_server = 3"
    by code_simp
  have env: "listen_ret ?env \<noteq> -1" "epoll_create_ret ?env \<noteq> -1" "ctl_listener_ret ?env \<noteq> -1"
    "epoll_create_ret ?env = 4" "turns ?env = [deliver [ev_connect 5], stop_turn]"
    by (simp_all add: startup_ok_def)
  from worker_exit_closes_listener_and_epoll [OF some env(1-3)]
  obtain s4 where "worker_loop (epoll_create_ret ?env) (turns ?env) (worker_online ?env constructed_server) = Some s4"
    and "emitted s4 (the (event_worker ?env constructed_server))
           = [Sys_close (socketfd constructed_server), Sys_close (epoll_create_ret ?env)]"
    and "client_fd_list (the (event_worker ?env constructed_server)) = client_fd_list s4"
    by blast
  then have "worker_loop 4 [deliver [ev_connect 5], stop_turn] online_server = Some s4
        \<and> emitted s4 (the (event_worker ?env constructed_server)) = [Sys_close 3, Sys_close 4]
        \<and> client_fd_list (the (event_worker ?env constructed_server)) = client_fd_list s4"
    by (simp only: env fd online_server_eq [symmetric])
  moreover have "event_worker ?env constructed_server \<noteq> None"
    by code_simp
  ultimately show ?thesis
    by blast
qed

text \<open>
  The claim as written fails: after one client has been accepted as \<open>5\<close> and the flag
  is cleared, the worker ends with \<open>5\<close> still in the vector and still open; the only
  descriptors it closed in the whole run are \<open>3\<close> and \<open>4\<close>.
\<close>

theorem shutdown_leaves_clients_open:
  "map_option (\<lambda>s. (client_fd_list s, 5 \<in> open_fds s, closes (trace s)))
     (event_worker (startup_ok [deliver [ev_connect 5], stop_turn]) constructed_server)
   = Some ([5], True, [3, 4])"
  by code_simp

subsection \<open>Liveness after a failed startup\<close>

lemma create_and_bind_flags [simp]:
  "isRunning (snd (create_and_bind env host port s)) = isRunning s"
  "worker_state (snd (create_and_bind env host port s)) = worker_state s"
  "epoll_worker (snd (create_and_bind env host port s)) = epoll_worker s"
  "client_fd_list (snd (create_and_bind env host port s)) = client_fd_list s"
  by (simp_all add: create_and_bind_def Let_def)

text \<open>
  When \<^verbatim>\<open>create_and_bind\<close> fails no worker is started, and the flag that
  \<^verbatim>\<open>isAlive\<close> reads is the one the object was created with.
\<close>

lemma bind_failure_starts_no_worker:
  assumes "fst (create_and_bind env host port s) \<noteq> 0"
  shows "epoll_worker (TCP_Server_host_port env host port s) = epoll_worker s"
    and "isAlive (TCP_Server_host_port env host port s) = isRunning s"
  using assms by (simp_all add: TCP_Server_host_port_def isAlive_def split_beta)

text \<open>
  When it succeeds the flag is set before the thread runs, and a worker that fails in
  \<^verbatim>\<open>listen\<close> or \<^verbatim>\<open>epoll_create1\<close> returns without publishing "online" and
  without clearing the flag.
\<close>

lemma startup_failure_still_alive:
  assumes "fst (create_and_bind env host port s) = 0"
    and "listen_ret wenv = -1 \<or> epoll_create_ret wenv = -1"
  shows "\<exists>s'. event_worker wenv (TCP_Server_host_port env host port s) = Some s'
           \<and> isAlive s' \<and> \<not> worker_state s'"
  using assms
  by (auto simp add: event_worker_def TCP_Server_host_port_def start_event_worker_def isAlive_def
      split_beta Let_def)

text \<open>
  Claim C7 fails on the code. The bind succeeds and the worker is started; its
  \<^verbatim>\<open>listen\<close> (or its \<^verbatim>\<open>epoll_create1\<close>) fails and it returns without going
  online. \<^verbatim>\<open>isAlive\<close> then reports \<open>True\<close>: it reads \<^verbatim>\<open>isRunning\<close>, which
  \<^verbatim>\<open>start_event_worker\<close> set, and not \<^verbatim>\<open>worker_state\<close>.
\<close>

theorem alive_after_failed_startup:
  "map_option (\<lambda>s. (isAlive s, worker_state s)) (event_worker listen_fails constructed_server)
   = Some (True, False)
   \<and> map_option (\<lambda>s. (isAlive s, worker_state s)) (event_worker epoll_create_fails constructed_server)
   = Some (True, False)"
  by code_simp

subsection \<open>Destruction\<close>

text \<open>
  Claim C10. The destructor is \<^verbatim>\<open>stop_event_worker\<close>: it clears the flag and calls
  \<^verbatim>\<open>join\<close> on the thread member whatever its state, with no test of joinability
  before it. For an object whose construction failed in \<^verbatim>\<open>create_and_bind\<close> the
  thread member is still default-constructed, the join is made all the same and throws
  \<^verbatim>\<open>std::system_error\<close>.
\<close>

theorem destructor_joins_unguarded:
  "TCP_Server_destructor s =
     (case thread_join (epoll_worker s) of
        Inl err \<Rightarrow> Inl err
      | Inr t \<Rightarrow> Inr (s\<lparr>isRunning := False, epoll_worker := t\<rparr>))
   \<and> (fst (create_and_bind env host port (fresh_object fd0 ws0 run0)) \<noteq> 0 \<longrightarrow>
        epoll_worker (TCP_Server_host_port env host port (fresh_object fd0 ws0 run0)) = Not_started
      \<and> TCP_Server_destructor (TCP_Server_host_port env host port (fresh_object fd0 ws0 run0))
          = Inl System_error)"
proof -
  have "epoll_worker (fresh_object fd0 ws0 run0) = Not_started"
    by (simp add: fresh_object_def)
  then show ?thesis
    by (auto simp add: TCP_Server_destructor_def stop_event_worker_def thread_join_def
        bind_failure_starts_no_worker Let_def split: sum.splits)
qed

theorem destructor_joins_unguarded_witness:
  "fst (create_and_bind bind_in_use ''0.0.0.0'' 9090 (fresh_object 0 False False)) \<noteq> 0
   \<and> epoll_worker (TCP_Server_host_port bind_in_use ''0.0.0.0'' 9090 (fresh_object 0 False False)) = Not_started
   \<and> TCP_Server_destructor (TCP_Server_host_port bind_in_use ''0.0.0.0'' 9090 (fresh_object 0 False False))
       = Inl System_error"
proof -
  have fails: "fst (create_and_bind bind_in_use ''0.0.0.0'' 9090 (fresh_object 0 False False)) \<noteq> 0"
    by code_simp
  have "fst (create_and_bind bind_in_use ''0.0.0.0'' 9090 (fresh_object 0 False False)) \<noteq> 0 \<longrightarrow>
        epoll_worker (TCP_Server_host_port bind_in_use ''0.0.0.0'' 9090 (fresh_object 0 False False)) = Not_started
      \<and> TCP_Server_destructor (TCP_Server_host_port bind_in_use ''0.0.0.0'' 9090 (fresh_object 0 False False))
          = Inl System_error"
    by (rule destructor_joins_unguarded [THEN conjunct2])
  with fails show ?thesis
    by blast
qed

subsection \<open>Order of the registry\<close>

lemma handle_event_extends: "prefix (trace s) (trace (handle_event epollfd e s))"
proof -
  consider "terminal_event e" | "listener_event s e" | "client_data_event s e"
    using event_cases by blast
  then show ?thesis
  proof cases
    case 1
    then show ?thesis by (simp add: handle_terminal)
  next
    case 2
    then show ?thesis by (simp add: handle_listener_trace)
  next
    case 3
    then show ?thesis by (simp add: handle_client_data Let_def trace_forward)
  qed
qed

lemma event_batch_extends: "prefix (trace s) (trace (event_batch epollfd es s))"
proof (induction es arbitrary: s)
  case Nil
  then show ?case by simp
next
  case (Cons e es)
  have "prefix (trace s) (trace (handle_event epollfd e s))"
    by (rule handle_event_extends)
  also have "prefix \<dots> (trace (event_batch epollfd es (handle_event epollfd e s)))"
    by (rule Cons.IH)
  finally show ?case by simp
qed

lemma emitted_trans:
  assumes "prefix (trace s) (trace s')" and "prefix (trace s') (trace s'')"
  shows "emitted s s'' = emitted s s' @ emitted s' s''"
proof -
  from assms obtain a b where "trace s' = trace s @ a" "trace s'' = trace s' @ b"
    by (auto simp add: prefix_def)
  then show ?thesis by (simp add: emitted_def)
qed

lemma insertion_order_append [simp]:
  "insertion_order (a @ b) = insertion_order a @ insertion_order b"
  by (simp add: insertion_order_def)

lemma insertion_order_accept_log:
  "insertion_order (accept_log env sock epollfd) =
     (if accept_succeeds env \<and> accept_ret env > 0 then [accept_ret env] else [])"
  by (simp add: insertion_order_def accept_log_def accept_succeeds_def)

lemma subseq_remove1: "subseq (remove1 x xs) xs"
  by (induction xs) auto

lemma subseq_step:
  assumes "subseq r1 (r0 @ o1)" and "subseq r2 (r1 @ o2)"
  shows "subseq r2 (r0 @ o1 @ o2)"
proof -
  have "subseq (r1 @ o2) ((r0 @ o1) @ o2)"
    using assms(1) by (rule list_emb_append_mono) simp
  with assms(2) have "subseq r2 ((r0 @ o1) @ o2)"
    by (rule subseq_order.trans)
  then show ?thesis by simp
qed

lemma handle_event_order:
  "subseq (client_fd_list (handle_event epollfd e s))
          (client_fd_list s @ insertion_order (emitted s (handle_event epollfd e s)))"
proof -
  consider "terminal_event e" | "listener_event s e" | "client_data_event s e"
    using event_cases by blast
  then show ?thesis
  proof cases
    case 1
    then show ?thesis by (simp add: handle_terminal insertion_order_def)
  next
    case 2
    have "emitted s (handle_event epollfd e s) = accept_log (ev_accept e) (socketfd s) epollfd"
      using handle_listener_trace [OF 2] by (rule emitted_append)
    then show ?thesis
      by (simp add: handle_listener_registry [OF 2] insertion_order_accept_log)
  next
    case 3
    have "subseq (client_fd_list (handle_event epollfd e s)) (client_fd_list s)"
      using 3 by (simp add: handle_client_data Let_def subseq_remove1)
    then show ?thesis by (rule subseq_rev_drop_many)
  qed
qed

lemma event_batch_order:
  "subseq (client_fd_list (event_batch epollfd es s))
          (client_fd_list s @ insertion_order (emitted s (event_batch epollfd es s)))"
proof (induction es arbitrary: s)
  case Nil
  then show ?case by (simp add: emitted_def insertion_order_def)
next
  case (Cons e es)
  let ?s1 = "handle_event epollfd e s"
  let ?s2 = "event_batch epollfd es ?s1"
  have "emitted s ?s2 = emitted s ?s1 @ emitted ?s1 ?s2"
    by (rule emitted_trans [OF handle_event_extends event_batch_extends])
  moreover have "subseq (client_fd_list ?s2)
      (client_fd_list s @ insertion_order (emitted s ?s1) @ insertion_order (emitted ?s1 ?s2))"
    by (rule subseq_step [OF handle_event_order Cons.IH])
  ultimately show ?case by simp
qed

lemma worker_loop_turn:
  assumes "worker_loop epollfd (t # ts) s = Some s'"
  obtains (stopped) "trace s' = trace s" "client_fd_list s' = client_fd_list s"
  | (turn) "worker_loop epollfd ts
              (event_batch epollfd (take (nat (wait_n t)) (wait_events t))
                (sys (Sys_epoll_wait epollfd (wait_n t)) s)) = Some s'"
  using assms by (auto simp add: Let_def split: if_splits)

lemma worker_loop_extends:
  "worker_loop epollfd ts s = Some s' \<Longrightarrow> prefix (trace s) (trace s')"
proof (induction ts arbitrary: s)
  case Nil
  then show ?case by simp
next
  case (Cons t ts)
  from Cons.prems show ?case
  proof (cases rule: worker_loop_turn)
    case stopped
    then show ?thesis by simp
  next
    case turn
    let ?s1 = "sys (Sys_epoll_wait epollfd (wait_n t)) s"
    let ?s2 = "event_batch epollfd (take (nat (wait_n t)) (wait_events t)) ?s1"
    have "prefix (trace s) (trace ?s1)" by simp
    also have "prefix \<dots> (trace ?s2)" by (rule event_batch_extends)
    also have "prefix \<dots> (trace s')" using turn by (rule Cons.IH)
    finally show ?thesis .
  qed
qed

lemma worker_loop_order:
  "worker_loop epollfd ts s = Some s' \<Longrightarrow>
   subseq (client_fd_list s') (client_fd_list s @ insertion_order (emitted s s'))"
proof (induction ts arbitrary: s)
  case Nil
  then show ?case by simp
next
  case (Cons t ts)
  from Cons.prems show ?case
  proof (cases rule: worker_loop_turn)
    case stopped
    then show ?thesis by (simp add: emitted_def insertion_order_def)
  next
    case turn
    let ?s1 = "sys (Sys_epoll_wait epollfd (wait_n t)) s"
    let ?s2 = "event_batch epollfd (take (nat (wait_n t)) (wait_events t)) ?s1"
    have tr1: "trace ?s1 = trace s @ [Sys_epoll_wait epollfd (wait_n t)]" by simp
    have e1: "emitted s ?s1 = [Sys_epoll_wait epollfd (wait_n t)]"
      using tr1 by (rule emitted_append)
    have p1: "prefix (trace s) (trace ?s1)" by simp
    have p2: "prefix (trace ?s1) (trace ?s2)" by (rule event_batch_extends)
    have p3: "prefix (trace ?s2) (trace s')" using turn by (rule worker_loop_extends)
    have p12: "prefix (trace s) (trace ?s2)" using p1 p2 by (rule prefix_order.trans)
    have "emitted s s' = emitted s ?s2 @ emitted ?s2 s'"
      by (rule emitted_trans [OF p12 p3])
    also have "emitted s ?s2 = emitted s ?s1 @ emitted ?s1 ?s2"
      by (rule emitted_trans [OF p1 p2])
    finally have em: "insertion_order (emitted s s') =
        insertion_order (emitted ?s1 ?s2) @ insertion_order (emitted ?s2 s')"
      by (simp add: e1 insertion_order_def)
    have "subseq (client_fd_list ?s2) (client_fd_list s @ insertion_order (emitted ?s1 ?s2))"
      using event_batch_order [of epollfd "take (nat (wait_n t)) (wait_events t)" ?s1] by simp
    then have "subseq (client_fd_list s')
        (client_fd_list s @ insertion_order (emitted ?s1 ?s2) @ insertion_order (emitted ?s2 s'))"
      using Cons.IH [OF turn] by (rule subseq_step)
    then show ?thesis by (simp only: em)
  qed
qed

text \<open>
  Claim C9. A successful accept pushes the new descriptor at the end of the vector, and
  nothing else adds to it or reorders it: over any run of the loop the vector is a
  subsequence of what it was followed by the descriptors pushed during the run, in the
  order of their accepts. The recipients of a broadcast are the entries of the vector
  other than the sender, in the order of the vector; the sequence is a function of the
  vector and the sender alone.
\<close>

theorem fanout_in_insertion_order:
  "(worker_loop epollfd ts s = Some s' \<longrightarrow>
      subseq (client_fd_list s') (client_fd_list s @ insertion_order (emitted s s')))
   \<and> (listener_event s e \<and> accept_succeeds (ev_accept e) \<and> accept_ret (ev_accept e) > 0 \<longrightarrow>
      client_fd_list (handle_event epollfd e s) = client_fd_list s @ [accept_ret (ev_accept e)]
    \<and> insertion_order (emitted s (handle_event epollfd e s)) = [accept_ret (ev_accept e)])
   \<and> (client_data_event s e \<and> 0 < ev_read_size e \<and> \<not> quit_sentinel e \<longrightarrow>
      map fst (writes (emitted s (handle_event epollfd e s)))
        = filter (\<lambda>c. c \<noteq> ev_fd e) (client_fd_list s))"
proof -
  have "insertion_order (emitted s (handle_event epollfd e s)) = [accept_ret (ev_accept e)]"
    if "listener_event s e" "accept_succeeds (ev_accept e)" "accept_ret (ev_accept e) > 0"
  proof -
    have "emitted s (handle_event epollfd e s) = accept_log (ev_accept e) (socketfd s) epollfd"
      using handle_listener_trace [OF that(1)] by (rule emitted_append)
    with that show ?thesis by (simp add: insertion_order_accept_log)
  qed
  then show ?thesis
    by (simp add: worker_loop_order handle_listener_registry fanout_writes comp_def)
qed

theorem fanout_in_insertion_order_witness:
  "worker_loop 4 three_clients_one_quits online_server \<noteq> None
   \<and> client_fd_list (the (worker_loop 4 three_clients_one_quits online_server)) = [5, 7]
   \<and> insertion_order (emitted online_server (the (worker_loop 4 three_clients_one_quits online_server)))
       = [5, 6, 7]
   \<and> subseq (client_fd_list (the (worker_loop 4 three_clients_one_quits online_server)))
        (client_fd_list online_server @
         insertion_order (emitted online_server (the (worker_loop 4 three_clients_one_quits online_server))))"
proof -
  let ?s' = "the (worker_loop 4 three_clients_one_quits online_server)"
  have run: "worker_loop 4 three_clients_one_quits online_server = Some ?s'"
    by code_simp
  have "worker_loop 4 three_clients_one_quits online_server \<noteq> None"
    by code_simp
  moreover have "client_fd_list ?s' = [5, 7]"
    by code_simp
  moreover have "insertion_order (emitted online_server ?s') = [5, 6, 7]"
    by code_simp
  moreover have "subseq (client_fd_list ?s')
      (client_fd_list online_server @ insertion_order (emitted online_server ?s'))"
    using fanout_in_insertion_order [where epollfd = 4 and ts = three_clients_one_quits
        and s = online_server and s' = ?s', THEN conjunct1] run
    by blast
  ultimately show ?thesis
    by blast
qed

end
